theory Spec2Isabelle
  imports Main "HOL-Library.Word"
begin

section \<open>Package job: the shell job\<close>

subsection \<open>Data model\<close>

text \<open>
  Modelled from the spec: the \<open>Status\<close> enum of package job. Its declaration is not among
  the source files; the spec lists the four values NotApplicable, OK, Failure and Timeout,
  which the source names \<open>StatusNA\<close>, \<open>StatusOK\<close>, \<open>StatusFailure\<close> and \<open>StatusTimeout\<close>.
\<close>

datatype Status = StatusNA | StatusOK | StatusFailure | StatusTimeout

text \<open>The struct \<open>ShellJobResult\<close>. Go's \<open>int\<close> exit code is an \<open>int\<close>.\<close>

record ShellJobResult =
  exitCode :: int
  stdout :: string
  stderr :: string

text \<open>
  The errors \<open>Execute\<close> can return: what \<open>cmd.Start\<close> reports, what \<open>cmd.Wait\<close> reports
  (an \<open>*exec.ExitError\<close> with the exit code, or another error), and the two errors of a
  done context (\<open>context.DeadlineExceeded\<close>, \<open>context.Canceled\<close>).
\<close>

datatype go_error =
    StartError string
  | ExitError int
  | WaitError string
  | DeadlineExceeded
  | Canceled

text \<open>
  A callback \<open>func(context.Context, *ShellJob)\<close> is run on a goroutine of its own. What the
  model keeps of it is how its body ends: it returns, or it panics with a value.
\<close>

datatype callback_body = CallbackReturns | CallbackPanics string

text \<open>
  The struct \<open>ShellJob\<close>. The mutex is left out (every function below is one sequential
  run); \<open>timeout\<close> is a \<open>time.Duration\<close>, a count of nanoseconds; \<open>result\<close> is the struct
  the job's pointer owns; a nil \<open>callback\<close> is \<open>None\<close>.
\<close>

record ShellJob =
  cmd :: string
  timeout :: int
  result :: ShellJobResult
  jobStatus :: Status
  callback :: "callback_body option"

subsection \<open>Construction and options\<close>

type_synonym ShellJobOptionFunc = "ShellJob \<Rightarrow> ShellJob"

definition WithTimeout :: "int \<Rightarrow> ShellJobOptionFunc" where
  "WithTimeout t job = (if 0 < t then job\<lparr>timeout := t\<rparr> else job)"

definition WithCallback :: "callback_body option \<Rightarrow> ShellJobOptionFunc" where
  "WithCallback cb job = job\<lparr>callback := cb\<rparr>"

text \<open>
  \<open>NewShellJob\<close>. The package constant \<open>JobTimeout\<close> is declared outside the source files
  and is a parameter here. The panic on an empty command is the \<open>Inl\<close> result.
\<close>

definition NewShellJob :: "int \<Rightarrow> string \<Rightarrow> ShellJobOptionFunc list \<Rightarrow> string + ShellJob" where
  "NewShellJob JobTimeout c opts =
     (if c = [] then Inl ''command cannot be empty''
      else Inr (fold (\<lambda>opt job. opt job) opts
             \<lparr>cmd = c, timeout = JobTimeout,
              result = \<lparr>exitCode = 0, stdout = [], stderr = []\<rparr>,
              jobStatus = StatusNA, callback = None\<rparr>))"

subsection \<open>Accessors\<close>

definition ExitCode :: "ShellJob \<Rightarrow> int" where
  "ExitCode sh = exitCode (result sh)"

definition Result :: "ShellJob \<Rightarrow> ShellJobResult" where
  "Result sh = \<lparr>exitCode = exitCode (result sh), stdout = stdout (result sh),
                stderr = stderr (result sh)\<rparr>"

definition Stdout :: "ShellJob \<Rightarrow> string" where
  "Stdout sh = stdout (result sh)"

definition Stderr :: "ShellJob \<Rightarrow> string" where
  "Stderr sh = stderr (result sh)"

definition JobStatus :: "ShellJob \<Rightarrow> Status" where
  "JobStatus sh = jobStatus sh"

subsection \<open>The world one run of Execute meets\<close>

text \<open>
  \<open>Execute\<close> talks to the operating system and to a context. Everything it reads from them
  in one run is a field of \<open>run_env\<close>; everything it does to them is an \<open>event\<close> of the
  trace it returns.
\<close>

datatype select_case = DoneFirst | CtxDoneFirst

datatype ctx_done = DeadlinePassed | CancelCalled

record run_env =
  bash_found :: bool                 \<comment> \<open>\<open>exec.LookPath("/bin/bash")\<close> found the file\<close>
  start_err :: "go_error option"     \<comment> \<open>what \<open>cmd.Start()\<close> returns\<close>
  process_pid :: "int option"        \<comment> \<open>\<open>cmd.Process\<close>: nil, or its \<open>Pid\<close>\<close>
  selected :: select_case            \<comment> \<open>the case of the \<open>select\<close> that fires\<close>
  wait_err :: "go_error option"      \<comment> \<open>what \<open>cmd.Wait()\<close> sends on \<open>done\<close>\<close>
  process_state :: "int option"      \<comment> \<open>\<open>cmd.ProcessState\<close>: nil, or its \<open>ExitCode()\<close>\<close>
  stdout_buf :: string               \<comment> \<open>\<open>stdout.String()\<close> when the result is set\<close>
  stderr_buf :: string               \<comment> \<open>\<open>stderr.String()\<close> when the result is set\<close>
  ctx_reason :: ctx_done             \<comment> \<open>why the context is done, when it is\<close>
  sigterm_fails :: bool              \<comment> \<open>\<open>syscall.Kill(-pid, SIGTERM)\<close> returns an error\<close>
  alive_after_grace :: bool          \<comment> \<open>the process still runs when the sleep ends\<close>

datatype signal = SIGTERM | SIGKILL

datatype event =
    ContextWithTimeout int           \<comment> \<open>\<open>context.WithTimeout(ctx, d)\<close>\<close>
  | StartProcess string string bool  \<comment> \<open>\<open>cmd.Start()\<close> of \<open>shell -c command\<close>, with \<open>Setpgid\<close> or not\<close>
  | GoWait                           \<comment> \<open>the goroutine \<open>done <- cmd.Wait()\<close> is started\<close>
  | Kill int signal                  \<comment> \<open>\<open>syscall.Kill(target, sig)\<close>\<close>
  | Sleep int                        \<comment> \<open>\<open>time.Sleep(d)\<close>, in nanoseconds\<close>
  | RecvDone                         \<comment> \<open>\<open><-done\<close> has received the watcher's value\<close>
  | SetJobResult string string int Status  \<comment> \<open>the call of \<open>setJobResult\<close>\<close>
  | GoCallback callback_body         \<comment> \<open>the goroutine that runs the callback is started\<close>

text \<open>\<open>ctx.Err()\<close> of a done context: Go's context package documents the two values.\<close>

definition ctx_Err :: "ctx_done \<Rightarrow> go_error" where
  "ctx_Err r = (case r of DeadlinePassed \<Rightarrow> DeadlineExceeded | CancelCalled \<Rightarrow> Canceled)"

definition Millisecond :: int where
  "Millisecond = 1000000"

subsection \<open>getShell, setJobResult, terminateProcess, Execute\<close>

definition getShell :: "run_env \<Rightarrow> string" where
  "getShell env = (if bash_found env then ''bash'' else ''sh'')"

definition setJobResult :: "ShellJob \<Rightarrow> string \<Rightarrow> string \<Rightarrow> int \<Rightarrow> Status \<Rightarrow> ShellJob" where
  "setJobResult sh out err code status =
     sh\<lparr>result := (result sh)\<lparr>stdout := out, stderr := err, exitCode := code\<rparr>,
        jobStatus := status\<rparr>"

definition terminateProcess :: "run_env \<Rightarrow> event list" where
  "terminateProcess env =
     (case process_pid env of
        None \<Rightarrow> []
      | Some p \<Rightarrow>
          if sigterm_fails env then [Kill (- p) SIGTERM, Kill (- p) SIGKILL]
          else [Kill (- p) SIGTERM, Sleep (100 * Millisecond), Kill (- p) SIGKILL])"

text \<open>
  \<open>Execute\<close> returns the trace of what it did, the job after the run and the error it
  returns (\<open>None\<close> is nil). The goroutine of the callback runs beside \<open>Execute\<close>; starting
  it is the last event.
\<close>

definition Execute :: "run_env \<Rightarrow> ShellJob \<Rightarrow> event list \<times> ShellJob \<times> go_error option" where
  "Execute env sh =
     (let shell = getShell env;
          out = stdout_buf env;
          err = stderr_buf env;
          pre = (if 0 < timeout sh then [ContextWithTimeout (timeout sh)] else [])
                  @ [StartProcess shell (cmd sh) (0 < timeout sh)]
      in case start_err env of
           Some e \<Rightarrow>
             (pre @ [SetJobResult out err (- 1) StatusFailure],
              setJobResult sh out err (- 1) StatusFailure, Some e)
         | None \<Rightarrow>
             let (evs, sh', finalErr) =
               (case selected env of
                  DoneFirst \<Rightarrow>
                    let werr = wait_err env;
                        code = (case process_state env of
                                  Some c \<Rightarrow> c
                                | None \<Rightarrow> if werr \<noteq> None then - 1 else 0);
                        status = (if werr \<noteq> None then StatusFailure else StatusOK)
                    in ([RecvDone, SetJobResult out err code status],
                        setJobResult sh out err code status, werr)
                | CtxDoneFirst \<Rightarrow>
                    (terminateProcess env @ [RecvDone, SetJobResult out err (- 1) StatusTimeout],
                     setJobResult sh out err (- 1) StatusTimeout,
                     Some (ctx_Err (ctx_reason env))))
             in (pre @ [GoWait] @ evs
                   @ (case callback sh of None \<Rightarrow> [] | Some cb \<Rightarrow> [GoCallback cb]),
                 sh', finalErr))"

text \<open>
  The body of the callback's goroutine: the deferred function recovers a panic and prints
  it; nothing of it reaches the job or the caller of \<open>Execute\<close>. The result is what the
  goroutine prints.
\<close>

definition callback_goroutine :: "callback_body \<Rightarrow> string list" where
  "callback_goroutine cb =
     (case cb of CallbackReturns \<Rightarrow> [] | CallbackPanics r \<Rightarrow> [''Callback panic: '' @ r])"

text \<open>The three components of what \<open>Execute\<close> returns.\<close>

definition run_trace :: "event list \<times> ShellJob \<times> go_error option \<Rightarrow> event list" where
  "run_trace r = fst r"

definition run_job :: "event list \<times> ShellJob \<times> go_error option \<Rightarrow> ShellJob" where
  "run_job r = fst (snd r)"

definition run_error :: "event list \<times> ShellJob \<times> go_error option \<Rightarrow> go_error option" where
  "run_error r = snd (snd r)"

definition is_StartProcess :: "event \<Rightarrow> bool" where
  "is_StartProcess ev = (case ev of StartProcess _ _ _ \<Rightarrow> True | _ \<Rightarrow> False)"

definition is_GoCallback :: "event \<Rightarrow> bool" where
  "is_GoCallback ev = (case ev of GoCallback _ \<Rightarrow> True | _ \<Rightarrow> False)"

definition is_SetJobResult :: "event \<Rightarrow> bool" where
  "is_SetJobResult ev = (case ev of SetJobResult _ _ _ _ \<Rightarrow> True | _ \<Rightarrow> False)"

subsection \<open>Concrete runs\<close>

text \<open>
  A run of \<open>exit 3\<close>: the process starts, ends before the deadline, \<open>Wait\<close> reports the exit
  error and the process state holds exit code 3.
\<close>

definition exit3_env :: run_env where
  "exit3_env = \<lparr>bash_found = True, start_err = None, process_pid = Some 4242,
     selected = DoneFirst, wait_err = Some (ExitError 3), process_state = Some 3,
     stdout_buf = ''out'', stderr_buf = ''err'', ctx_reason = DeadlinePassed,
     sigterm_fails = False, alive_after_grace = False\<rparr>"

text \<open>A clean run: \<open>Wait\<close> returns nil and the exit code is 0.\<close>

definition clean_env :: run_env where
  "clean_env = exit3_env\<lparr>wait_err := None, process_state := Some 0\<rparr>"

text \<open>A run whose context is done first, because its deadline has passed.\<close>

definition timeout_env :: run_env where
  "timeout_env = exit3_env\<lparr>selected := CtxDoneFirst, wait_err := Some (WaitError ''signal: killed''),
     process_state := Some (- 1)\<rparr>"


text \<open>A run that ends with an error of \<open>Wait\<close> and no process state.\<close>

definition no_state_env :: run_env where
  "no_state_env = exit3_env\<lparr>wait_err := Some (WaitError ''wait: no child processes''),
     process_state := None\<rparr>"

text \<open>A run where the shell cannot be started.\<close>

definition spawn_fail_env :: run_env where
  "spawn_fail_env = exit3_env\<lparr>start_err := Some (StartError ''exec: bash: not found''),
     process_pid := None, process_state := None, stdout_buf := [], stderr_buf := []\<rparr>"


text \<open>A job with a five second timeout and a callback that panics.\<close>

definition demo_job :: ShellJob where
  "demo_job = \<lparr>cmd = ''exit 3'', timeout = 5000 * Millisecond,
     result = \<lparr>exitCode = 0, stdout = [], stderr = []\<rparr>,
     jobStatus = StatusNA, callback = Some (CallbackPanics ''boom'')\<rparr>"

section \<open>Package quartz: the cron trigger\<close>

subsection \<open>Go's time values\<close>

text \<open>
  A \<open>time.Time\<close> is an instant, kept as the seconds since 1970-01-01T00:00:00Z and the
  nanoseconds within the second (\<open>0 \<le> nsec < 10^9\<close>), and a location for display. A
  \<open>*time.Location\<close> is known by its name. Go keeps the seconds in an \<open>int64\<close> counted
  from year 1, whose range is far wider than the range of the \<open>int64\<close> milliseconds the
  trigger works with; the model keeps them as an \<open>int\<close>.
\<close>

type_synonym Location = string

record Time =
  unix_sec :: int
  nsec :: int
  loc :: Location

text \<open>Go's \<open>/\<close> and \<open>%\<close> on integers truncate towards zero.\<close>

definition quot :: "int \<Rightarrow> int \<Rightarrow> int" where
  "quot a b = sgn a * sgn b * (\<bar>a\<bar> div \<bar>b\<bar>)"

definition rem :: "int \<Rightarrow> int \<Rightarrow> int" where
  "rem a b = a - b * quot a b"

text \<open>\<open>time.Unix(sec, nsec)\<close>: nanoseconds outside \<open>[0, 10^9)\<close> are carried into the seconds.\<close>

definition Unix :: "int \<Rightarrow> int \<Rightarrow> Time" where
  "Unix sec ns =
     (if ns < 0 \<or> 1000000000 \<le> ns then
        let n = quot ns 1000000000;
            sec1 = sec + n;
            ns1 = ns - n * 1000000000
        in if ns1 < 0 then \<lparr>unix_sec = sec1 - 1, nsec = ns1 + 1000000000, loc = ''Local''\<rparr>
           else \<lparr>unix_sec = sec1, nsec = ns1, loc = ''Local''\<rparr>
      else \<lparr>unix_sec = sec, nsec = ns, loc = ''Local''\<rparr>)"

text \<open>\<open>time.UnixMilli(msec)\<close> is \<open>Unix(msec/1e3, (msec%1e3)*1e6)\<close>.\<close>

definition time_UnixMilli :: "64 word \<Rightarrow> Time" where
  "time_UnixMilli msec = Unix (quot (sint msec) 1000) (rem (sint msec) 1000 * 1000000)"

text \<open>
  The method \<open>t.UnixMilli()\<close> is \<open>t.unixSec()*1e3 + int64(t.nsec())/1e6\<close>, computed in
  \<open>int64\<close>: a value outside the range wraps around.
\<close>

definition Time_UnixMilli :: "Time \<Rightarrow> 64 word" where
  "Time_UnixMilli t = word_of_int (unix_sec t * 1000 + quot (nsec t) 1000000)"

definition In :: "Time \<Rightarrow> Location \<Rightarrow> Time" where
  "In t l = t\<lparr>loc := l\<rparr>"

text \<open>The zero \<open>Time\<close> is January 1 of year 1, 00:00:00 UTC.\<close>

definition IsZero :: "Time \<Rightarrow> bool" where
  "IsZero t = (unix_sec t + 62135596800 = 0 \<and> nsec t = 0)"

definition After :: "Time \<Rightarrow> Time \<Rightarrow> bool" where
  "After t u = (unix_sec u < unix_sec t \<or> (unix_sec t = unix_sec u \<and> nsec u < nsec t))"

subsection \<open>The trigger\<close>

text \<open>
  The \<open>schedule\<close> of a trigger is a \<open>cron.Schedule\<close> of the cron library: an interface with
  the one method \<open>Next\<close>, kept here as that function. The library is not among the source
  files, so the parser (\<open>parser.Parse\<close>, which returns a schedule or an error) is a
  parameter of the constructor. The constructor is the only way to a \<open>CronTrigger\<close> and
  stores a non-nil location, so the field is a \<open>Location\<close>; the argument of the
  constructor may be nil (\<open>None\<close>).
\<close>

record CronTrigger =
  expression :: string
  schedule :: "Time \<Rightarrow> Time"
  location :: Location

text \<open>
  The errors of package quartz. Modelled from the spec: \<open>newIllegalArgumentError\<close> is
  declared outside the source files; the spec calls its error InvalidArgument, and the
  model keeps the message it is given. \<open>ParseFailed\<close> is the error of
  \<open>fmt.Errorf("failed to parse cron expression '%s': %w", expression, err)\<close>, holding the
  expression and the parser's error it wraps; \<open>NoNextFireTime\<close> is that of
  \<open>fmt.Errorf("no next fire time available for cron expression: %s", expression)\<close>.
\<close>

datatype quartz_error =
    IllegalArgument string
  | ParseFailed string string
  | NoNextFireTime string

type_synonym cron_parser = "string \<Rightarrow> string + (Time \<Rightarrow> Time)"

definition NewCronTriggerWithLoc ::
  "cron_parser \<Rightarrow> string \<Rightarrow> Location option \<Rightarrow> CronTrigger option \<times> quartz_error option" where
  "NewCronTriggerWithLoc parse expr l =
     (case l of
        None \<Rightarrow> (None, Some (IllegalArgument ''location is nil''))
      | Some lc \<Rightarrow>
          if expr = [] then (None, Some (IllegalArgument ''cron expression cannot be empty''))
          else (case parse expr of
                  Inl err \<Rightarrow> (None, Some (ParseFailed expr err))
                | Inr sched \<Rightarrow>
                    (Some \<lparr>expression = expr, schedule = sched, location = lc\<rparr>, None)))"

definition NewCronTrigger ::
  "cron_parser \<Rightarrow> string \<Rightarrow> CronTrigger option \<times> quartz_error option" where
  "NewCronTrigger parse expr = NewCronTriggerWithLoc parse expr (Some ''UTC'')"

text \<open>
  \<open>NextFireTime\<close>. The current time \<open>time.Now()\<close> is the parameter \<open>now\<close>. \<open>baseTime\<close> is
  the variable of that name in the source.
\<close>

definition baseTime :: "Time \<Rightarrow> CronTrigger \<Rightarrow> 64 word \<Rightarrow> Time" where
  "baseTime now ct prev =
     (if sint prev \<le> 0 then In now (location ct)
      else In (time_UnixMilli prev) (location ct))"

definition NextFireTime :: "Time \<Rightarrow> CronTrigger \<Rightarrow> 64 word \<Rightarrow> 64 word \<times> quartz_error option" where
  "NextFireTime now ct prev =
     (let nextTime = schedule ct (baseTime now ct prev)
      in if IsZero nextTime then (- 1, Some (NoNextFireTime (expression ct)))
         else (Time_UnixMilli nextTime, None))"

text \<open>
  Feeding each fire time back as the next \<open>prev\<close>, as the function \<open>iterate\<close> of the tests
  does, \<open>n\<close> times or until an error: the list of the fire times.
\<close>

fun fire_times :: "Time \<Rightarrow> CronTrigger \<Rightarrow> 64 word \<Rightarrow> nat \<Rightarrow> 64 word list" where
  "fire_times now ct prev 0 = []"
| "fire_times now ct prev (Suc n) =
     (case NextFireTime now ct prev of
        (nxt, None) \<Rightarrow> nxt # fire_times now ct nxt n
      | (nxt, Some e) \<Rightarrow> [])"

subsection \<open>The calendar\<close>

text \<open>
  The fields of an instant in UTC, as the methods \<open>Month\<close>, \<open>Day\<close>, \<open>Weekday\<close>, \<open>Hour\<close>,
  \<open>Minute\<close> and \<open>Second\<close> of Go's \<open>Time\<close> give them for a time in \<open>time.UTC\<close>, and
  \<open>time.Date\<close> for fields in their ranges: the proleptic Gregorian calendar, with day 0
  Thursday 1970-01-01 and \<open>Weekday\<close> 0 for Sunday.
\<close>

definition days_from_civil :: "int \<Rightarrow> int \<Rightarrow> int \<Rightarrow> int" where
  "days_from_civil y m d =
     (let y1 = (if m \<le> 2 then y - 1 else y);
          era = y1 div 400;
          yoe = y1 - era * 400;
          doy = (153 * (if 2 < m then m - 3 else m + 9) + 2) div 5 + d - 1;
          doe = yoe * 365 + yoe div 4 - yoe div 100 + doy
      in era * 146097 + doe - 719468)"

text \<open>
  From the number of a day to its date: the day of the 400-year era (\<open>doe\<close>, counted from
  March 1), the year of the era, the day of the year counted from March 1 (\<open>doy\<close>), and
  the month counted from March (\<open>mp\<close>).
\<close>

definition doe_of :: "int \<Rightarrow> int" where
  "doe_of z0 = (z0 + 719468) mod 146097"

definition yoe_of :: "int \<Rightarrow> int" where
  "yoe_of doe = (doe - doe div 1460 + doe div 36524 - doe div 146096) div 365"

definition doy_of :: "int \<Rightarrow> int" where
  "doy_of doe = doe - (365 * yoe_of doe + yoe_of doe div 4 - yoe_of doe div 100)"

definition mp_of :: "int \<Rightarrow> int" where
  "mp_of doy = (5 * doy + 2) div 153"

definition month_of_day :: "int \<Rightarrow> int" where
  "month_of_day z0 =
     (let mp = mp_of (doy_of (doe_of z0)) in if mp < 10 then mp + 3 else mp - 9)"

definition day_of_month :: "int \<Rightarrow> int" where
  "day_of_month z0 =
     (let doy = doy_of (doe_of z0) in doy - (153 * mp_of doy + 2) div 5 + 1)"








subsection \<open>The schedule of a cron expression\<close>
















text \<open>
  Modelled from the spec: what every schedule of the library promises of \<open>Next\<close>. The
  result is the zero time when there is no occurrence; otherwise it lies strictly after
  the base time, and on a whole second, as the occurrences of a cron schedule do.
\<close>

definition next_is_later :: "(Time \<Rightarrow> Time) \<Rightarrow> bool" where
  "next_is_later sched = (\<forall>t. IsZero (sched t) \<or> (After (sched t) t \<and> nsec (sched t) = 0))"

text \<open>The fire time fits the \<open>int64\<close> milliseconds that \<open>NextFireTime\<close> returns.\<close>

definition fits_int64_ms :: "Time \<Rightarrow> bool" where
  "fits_int64_ms t =
     (- (2 ^ 63) \<le> unix_sec t * 1000 + quot (nsec t) 1000000
      \<and> unix_sec t * 1000 + quot (nsec t) 1000000 < 2 ^ 63)"

text \<open>
  Modelled from the spec: every schedule the parser of the library returns keeps this
  promise.
\<close>

definition schedules_are_later :: "cron_parser \<Rightarrow> bool" where
  "schedules_are_later parse = (\<forall>e s. parse e = Inr s \<longrightarrow> next_is_later s)"

text \<open>The fire times that follow each \<open>prev\<close> of a list fit the \<open>int64\<close> milliseconds.\<close>

definition all_fit :: "Time \<Rightarrow> CronTrigger \<Rightarrow> 64 word list \<Rightarrow> bool" where
  "all_fit now ct ps = list_all (\<lambda>p. fits_int64_ms (schedule ct (baseTime now ct p))) ps"

text \<open>
  The schedule of the expression \<open>* * * * *\<close>, which fires on every whole minute; a parser
  that knows this expression only; the trigger \<open>NewCronTrigger\<close> builds with it; and the
  largest \<open>int64\<close>.
\<close>

definition every_minute :: "Time \<Rightarrow> Time" where
  "every_minute t = t\<lparr>unix_sec := unix_sec t - unix_sec t mod 60 + 60, nsec := 0\<rparr>"

definition minutely_parser :: cron_parser where
  "minutely_parser e =
     (if e = ''* * * * *'' then Inr every_minute else Inl ''expression not supported'')"

definition minutely_trigger :: CronTrigger where
  "minutely_trigger = \<lparr>expression = ''* * * * *'', schedule = every_minute, location = ''UTC''\<rparr>"

definition max_int64 :: "64 word" where
  "max_int64 = 9223372036854775807"

definition epoch :: Time where
  "epoch = \<lparr>unix_sec = 0, nsec = 0, loc = ''Local''\<rparr>"



section \<open>Properties of the shell job\<close>

lemma fold_options_keep:
  assumes "\<forall>opt \<in> set opts. (\<exists>d. opt = WithTimeout d) \<or> (\<exists>cb. opt = WithCallback cb)"
  shows "result (fold (\<lambda>opt job. opt job) opts j) = result j
       \<and> jobStatus (fold (\<lambda>opt job. opt job) opts j) = jobStatus j"
  using assms
proof (induction opts arbitrary: j)
  case Nil
  then show ?case by simp
next
  case (Cons o1 os)
  from Cons.prems have o1: "(\<exists>d. o1 = WithTimeout d) \<or> (\<exists>cb. o1 = WithCallback cb)"
    by simp
  then have keep: "result (o1 j) = result j \<and> jobStatus (o1 j) = jobStatus j"
    by (auto simp: WithTimeout_def WithCallback_def)
  from Cons.prems have rest:
    "\<forall>opt \<in> set os. (\<exists>d. opt = WithTimeout d) \<or> (\<exists>cb. opt = WithCallback cb)"
    by simp
  from Cons.IH [OF rest, of "o1 j"] keep show ?case by simp
qed

subsection \<open>A fresh job\<close>

text \<open>
  C10. A job that \<open>NewShellJob\<close> returns, built with the options of the package
  (\<open>WithTimeout\<close>, \<open>WithCallback\<close>), reports before any \<open>Execute\<close> the status \<open>StatusNA\<close>, the
  exit code 0 and empty output. After a clean run (the process starts, ends first, \<open>Wait\<close>
  returns nil, exit code 0) the status is \<open>StatusOK\<close> and the exit code is the same 0 as
  before the run.
\<close>

theorem fresh_job_accessors:
  assumes "NewShellJob jt c opts = Inr job"
      and "\<forall>opt \<in> set opts. (\<exists>d. opt = WithTimeout d) \<or> (\<exists>cb. opt = WithCallback cb)"
  shows "JobStatus job = StatusNA \<and> ExitCode job = 0 \<and> Stdout job = [] \<and> Stderr job = []
       \<and> (start_err env = None \<and> selected env = DoneFirst \<and> wait_err env = None
            \<and> process_state env = Some 0
          \<longrightarrow> JobStatus (run_job (Execute env job)) = StatusOK
            \<and> ExitCode (run_job (Execute env job)) = ExitCode job)"
proof -
  from assms(1) have
    job: "job = fold (\<lambda>opt job. opt job) opts
             \<lparr>cmd = c, timeout = jt,
              result = \<lparr>exitCode = 0, stdout = [], stderr = []\<rparr>,
              jobStatus = StatusNA, callback = None\<rparr>"
    by (auto simp: NewShellJob_def split: if_splits)
  from fold_options_keep [OF assms(2)] job
  have r: "result job = \<lparr>exitCode = 0, stdout = [], stderr = []\<rparr>"
    and s: "jobStatus job = StatusNA"
    by simp_all
  have fresh: "JobStatus job = StatusNA \<and> ExitCode job = 0 \<and> Stdout job = [] \<and> Stderr job = []"
    using r s by (simp add: JobStatus_def ExitCode_def Stdout_def Stderr_def)
  have run: "start_err env = None \<and> selected env = DoneFirst \<and> wait_err env = None
            \<and> process_state env = Some 0
          \<longrightarrow> JobStatus (run_job (Execute env job)) = StatusOK
            \<and> ExitCode (run_job (Execute env job)) = ExitCode job"
    using r
    by (simp add: Execute_def run_job_def setJobResult_def JobStatus_def ExitCode_def Let_def)
  from fresh run show ?thesis by simp
qed

theorem fresh_job_accessors_witness:
  "NewShellJob (30000 * Millisecond) ''true'' [WithTimeout 5, WithCallback (Some CallbackReturns)]
     = Inr \<lparr>cmd = ''true'', timeout = 5, result = \<lparr>exitCode = 0, stdout = [], stderr = []\<rparr>,
            jobStatus = StatusNA, callback = Some CallbackReturns\<rparr>
   \<and> JobStatus \<lparr>cmd = ''true'', timeout = 5, result = \<lparr>exitCode = 0, stdout = [], stderr = []\<rparr>,
            jobStatus = StatusNA, callback = Some CallbackReturns\<rparr> = StatusNA
   \<and> start_err clean_env = None \<and> selected clean_env = DoneFirst \<and> wait_err clean_env = None
   \<and> process_state clean_env = Some 0
   \<and> ExitCode (run_job (Execute clean_env
        \<lparr>cmd = ''true'', timeout = 5, result = \<lparr>exitCode = 0, stdout = [], stderr = []\<rparr>,
         jobStatus = StatusNA, callback = Some CallbackReturns\<rparr>)) = 0"
proof -
  let ?j = "\<lparr>cmd = ''true'', timeout = 5, result = \<lparr>exitCode = 0, stdout = [], stderr = []\<rparr>,
            jobStatus = StatusNA, callback = Some CallbackReturns\<rparr>"
  have n: "NewShellJob (30000 * Millisecond) ''true''
             [WithTimeout 5, WithCallback (Some CallbackReturns)] = Inr ?j"
    by (simp add: NewShellJob_def WithTimeout_def WithCallback_def)
  have o: "\<forall>opt \<in> set [WithTimeout 5, WithCallback (Some CallbackReturns)].
             (\<exists>d. opt = WithTimeout d) \<or> (\<exists>cb. opt = WithCallback cb)"
    by auto
  have e: "start_err clean_env = None \<and> selected clean_env = DoneFirst
            \<and> wait_err clean_env = None \<and> process_state clean_env = Some 0"
    by (simp add: clean_env_def exit3_env_def)
  from fresh_job_accessors [OF n o, of clean_env] n e show ?thesis by simp
qed

subsection \<open>The three ends of Execute\<close>

text \<open>
  C7. When \<open>cmd.Start\<close> fails, \<open>Execute\<close> sets the result to the output so far, exit code -1
  and \<open>StatusFailure\<close>, and returns the error of \<open>Start\<close>. Setting the result is the last
  thing it does: no watcher is started, nothing is received from it, and the process is
  started once.
\<close>

theorem spawn_failure_commit:
  assumes "start_err env = Some e"
  shows "run_error (Execute env sh) = Some e
       \<and> Result (run_job (Execute env sh))
           = \<lparr>exitCode = - 1, stdout = stdout_buf env, stderr = stderr_buf env\<rparr>
       \<and> JobStatus (run_job (Execute env sh)) = StatusFailure
       \<and> last (run_trace (Execute env sh))
           = SetJobResult (stdout_buf env) (stderr_buf env) (- 1) StatusFailure
       \<and> GoWait \<notin> set (run_trace (Execute env sh))
       \<and> RecvDone \<notin> set (run_trace (Execute env sh))
       \<and> length (filter is_StartProcess (run_trace (Execute env sh))) = 1"
  using assms
  by (simp add: Execute_def run_error_def run_job_def run_trace_def Result_def JobStatus_def
      setJobResult_def is_StartProcess_def Let_def)

theorem spawn_failure_commit_witness:
  "start_err spawn_fail_env = Some (StartError ''exec: bash: not found'')
   \<and> run_error (Execute spawn_fail_env demo_job) = Some (StartError ''exec: bash: not found'')
   \<and> Result (run_job (Execute spawn_fail_env demo_job))
       = \<lparr>exitCode = - 1, stdout = [], stderr = []\<rparr>
   \<and> JobStatus (run_job (Execute spawn_fail_env demo_job)) = StatusFailure"
proof -
  have h: "start_err spawn_fail_env = Some (StartError ''exec: bash: not found'')"
    "stdout_buf spawn_fail_env = []" "stderr_buf spawn_fail_env = []"
    by (simp_all add: spawn_fail_env_def exit3_env_def)
  from spawn_failure_commit [OF h(1), of demo_job] h show ?thesis by simp
qed

text \<open>
  C2. When the process ends before the context is done, the exit code set is the one of
  the process state, or -1 when there is no process state and \<open>Wait\<close> returned an error;
  the status is \<open>StatusOK\<close> exactly when \<open>Wait\<close> returned nil, and \<open>StatusFailure\<close>
  otherwise; the output set is the content of the two buffers; \<open>Execute\<close> returns the
  error of \<open>Wait\<close>. A run of \<open>exit 3\<close> ends with \<open>StatusFailure\<close> and exit code 3.
\<close>

theorem completion_commit:
  assumes "start_err env = None" and "selected env = DoneFirst"
  shows "(\<forall>c. process_state env = Some c \<longrightarrow> ExitCode (run_job (Execute env sh)) = c)
       \<and> (process_state env = None \<and> wait_err env \<noteq> None
            \<longrightarrow> ExitCode (run_job (Execute env sh)) = - 1)
       \<and> (JobStatus (run_job (Execute env sh)) = StatusOK \<longleftrightarrow> wait_err env = None)
       \<and> (wait_err env \<noteq> None \<longrightarrow> JobStatus (run_job (Execute env sh)) = StatusFailure)
       \<and> Stdout (run_job (Execute env sh)) = stdout_buf env
       \<and> Stderr (run_job (Execute env sh)) = stderr_buf env
       \<and> run_error (Execute env sh) = wait_err env
       \<and> (wait_err env = Some (ExitError 3) \<and> process_state env = Some 3
            \<longrightarrow> JobStatus (run_job (Execute env sh)) = StatusFailure
              \<and> ExitCode (run_job (Execute env sh)) = 3)"
  using assms
  by (auto simp: Execute_def run_error_def run_job_def Stdout_def Stderr_def JobStatus_def
      ExitCode_def setJobResult_def Let_def)

theorem completion_commit_witness:
  "start_err exit3_env = None \<and> selected exit3_env = DoneFirst
   \<and> wait_err exit3_env = Some (ExitError 3) \<and> process_state exit3_env = Some 3
   \<and> JobStatus (run_job (Execute exit3_env demo_job)) = StatusFailure
   \<and> ExitCode (run_job (Execute exit3_env demo_job)) = 3
   \<and> Stdout (run_job (Execute exit3_env demo_job)) = ''out''
   \<and> run_error (Execute exit3_env demo_job) = Some (ExitError 3)
   \<and> start_err no_state_env = None \<and> selected no_state_env = DoneFirst
   \<and> process_state no_state_env = None \<and> wait_err no_state_env \<noteq> None
   \<and> ExitCode (run_job (Execute no_state_env demo_job)) = - 1"
proof -
  have h: "start_err exit3_env = None" "selected exit3_env = DoneFirst"
    "wait_err exit3_env = Some (ExitError 3)" "process_state exit3_env = Some 3"
    "stdout_buf exit3_env = ''out''"
    by (simp_all add: exit3_env_def)
  have n: "start_err no_state_env = None" "selected no_state_env = DoneFirst"
    "process_state no_state_env = None" "wait_err no_state_env \<noteq> None"
    by (simp_all add: no_state_env_def exit3_env_def)
  from completion_commit [OF h(1) h(2), of demo_job]
    completion_commit [OF n(1) n(2), of demo_job] h n
  show ?thesis by simp
qed




subsection \<open>Ending the process\<close>

text \<open>
  C9, as the code has it. \<open>terminateProcess\<close> does nothing without a process. Otherwise it
  sends SIGTERM to the process group; when that is sent, it sleeps 100 ms and then sends
  SIGKILL to the group, whether the process is still alive or not; when sending SIGTERM
  fails, it sends SIGKILL at once.
\<close>

theorem terminate_escalation:
  "(process_pid env = None \<longrightarrow> terminateProcess env = [])
   \<and> (\<forall>p. process_pid env = Some p \<and> \<not> sigterm_fails env
        \<longrightarrow> terminateProcess env
              = [Kill (- p) SIGTERM, Sleep (100 * Millisecond), Kill (- p) SIGKILL])
   \<and> (\<forall>p. process_pid env = Some p \<and> sigterm_fails env
        \<longrightarrow> terminateProcess env = [Kill (- p) SIGTERM, Kill (- p) SIGKILL])
   \<and> terminateProcess (env\<lparr>alive_after_grace := b\<rparr>) = terminateProcess env
   \<and> 100 * Millisecond = 100000000"
  by (simp add: terminateProcess_def Millisecond_def split: option.split)

theorem terminate_escalation_witness:
  "process_pid timeout_env = Some 4242 \<and> \<not> sigterm_fails timeout_env
   \<and> terminateProcess timeout_env
       = [Kill (- 4242) SIGTERM, Sleep (100 * Millisecond), Kill (- 4242) SIGKILL]
   \<and> process_pid spawn_fail_env = None \<and> terminateProcess spawn_fail_env = []
   \<and> process_pid (timeout_env\<lparr>sigterm_fails := True\<rparr>) = Some 4242
   \<and> sigterm_fails (timeout_env\<lparr>sigterm_fails := True\<rparr>)
   \<and> terminateProcess (timeout_env\<lparr>sigterm_fails := True\<rparr>)
       = [Kill (- 4242) SIGTERM, Kill (- 4242) SIGKILL]"
proof -
  have h: "process_pid timeout_env = Some 4242" "\<not> sigterm_fails timeout_env"
    "process_pid spawn_fail_env = None"
    "process_pid (timeout_env\<lparr>sigterm_fails := True\<rparr>) = Some 4242"
    "sigterm_fails (timeout_env\<lparr>sigterm_fails := True\<rparr>)"
    by (simp_all add: timeout_env_def exit3_env_def spawn_fail_env_def)
  from terminate_escalation [of timeout_env] terminate_escalation [of spawn_fail_env]
    terminate_escalation [of "timeout_env\<lparr>sigterm_fails := True\<rparr>"] h
  show ?thesis by simp
qed

text \<open>
  C9, as the claim states it, fails where the process has ended during the sleep:
  SIGKILL is sent all the same.
\<close>

theorem sigkill_without_liveness_check:
  "\<not> alive_after_grace timeout_env
   \<and> terminateProcess timeout_env
       = [Kill (- 4242) SIGTERM, Sleep (100 * Millisecond), Kill (- 4242) SIGKILL]"
  by (simp add: terminateProcess_def timeout_env_def exit3_env_def)

subsection \<open>The callback\<close>

text \<open>
  C4. With a callback configured, a run where the shell cannot be started sets the result
  and returns without starting the callback; a run that ends before the deadline and a
  run that meets it each start the callback once, after the result is set. A panic of
  the callback is recovered in its goroutine and printed, and \<open>Execute\<close> returns what it
  returns without it.
\<close>

theorem spawn_failure_skips_callback:
  "callback demo_job = Some (CallbackPanics ''boom'')
   \<and> start_err spawn_fail_env = Some (StartError ''exec: bash: not found'')
   \<and> run_trace (Execute spawn_fail_env demo_job)
       = [ContextWithTimeout (5000 * Millisecond), StartProcess ''bash'' ''exit 3'' True,
          SetJobResult [] [] (- 1) StatusFailure]
   \<and> filter is_GoCallback (run_trace (Execute spawn_fail_env demo_job)) = []
   \<and> filter is_GoCallback (run_trace (Execute exit3_env demo_job))
       = [GoCallback (CallbackPanics ''boom'')]
   \<and> filter is_GoCallback (run_trace (Execute timeout_env demo_job))
       = [GoCallback (CallbackPanics ''boom'')]
   \<and> callback_goroutine (CallbackPanics ''boom'') = [''Callback panic: boom'']
   \<and> run_error (Execute exit3_env demo_job) = Some (ExitError 3)"
  by (simp add: Execute_def run_trace_def run_error_def spawn_fail_env_def exit3_env_def
      timeout_env_def demo_job_def getShell_def is_GoCallback_def terminateProcess_def
      callback_goroutine_def Millisecond_def Let_def)

section \<open>Properties of the cron trigger\<close>

subsection \<open>Construction\<close>

text \<open>
  C6. The constructor checks before it builds: a nil location and an empty expression
  give the illegal-argument error, an expression the parser rejects gives the error that
  wraps the parser's; whenever it returns an error it returns no trigger; and an
  expression the parser accepts gives the trigger with the compiled schedule.
\<close>

theorem construction_validates:
  "NewCronTriggerWithLoc parse e None = (None, Some (IllegalArgument ''location is nil''))
   \<and> NewCronTriggerWithLoc parse [] (Some l)
       = (None, Some (IllegalArgument ''cron expression cannot be empty''))
   \<and> (\<forall>perr. e \<noteq> [] \<and> parse e = Inl perr
        \<longrightarrow> NewCronTriggerWithLoc parse e (Some l) = (None, Some (ParseFailed e perr)))
   \<and> (snd (NewCronTriggerWithLoc parse e lo) \<noteq> None
        \<longrightarrow> fst (NewCronTriggerWithLoc parse e lo) = None)
   \<and> (\<forall>sched. e \<noteq> [] \<and> parse e = Inr sched
        \<longrightarrow> NewCronTriggerWithLoc parse e (Some l)
              = (Some \<lparr>expression = e, schedule = sched, location = l\<rparr>, None))"
  by (auto simp: NewCronTriggerWithLoc_def split: option.splits sum.splits)

theorem construction_validates_witness:
  "''61 * * *'' \<noteq> [] \<and> minutely_parser ''61 * * *'' = Inl ''expression not supported''
   \<and> NewCronTriggerWithLoc minutely_parser ''61 * * *'' (Some ''UTC'')
       = (None, Some (ParseFailed ''61 * * *'' ''expression not supported''))
   \<and> snd (NewCronTriggerWithLoc minutely_parser ''61 * * *'' (Some ''UTC'')) \<noteq> None
   \<and> fst (NewCronTriggerWithLoc minutely_parser ''61 * * *'' (Some ''UTC'')) = None
   \<and> ''* * * * *'' \<noteq> [] \<and> minutely_parser ''* * * * *'' = Inr every_minute
   \<and> NewCronTriggerWithLoc minutely_parser ''* * * * *'' (Some ''UTC'')
       = (Some minutely_trigger, None)"
proof -
  have p: "''61 * * *'' \<noteq> [] \<and> minutely_parser ''61 * * *'' = Inl ''expression not supported''"
    by (simp add: minutely_parser_def)
  have q: "''* * * * *'' \<noteq> [] \<and> minutely_parser ''* * * * *'' = Inr every_minute"
    by (simp add: minutely_parser_def)
  from construction_validates [of minutely_parser "''61 * * *''" "''UTC''" "Some ''UTC''"]
    construction_validates [of minutely_parser "''* * * * *''" "''UTC''" "Some ''UTC''"] p q
  show ?thesis by (simp add: minutely_trigger_def)
qed

subsection \<open>Milliseconds and times\<close>

lemma quot_nonneg: "0 \<le> a \<Longrightarrow> quot a 1000 = a div 1000"
  by (cases "a = 0") (simp_all add: quot_def)

lemma rem_nonneg: "0 \<le> a \<Longrightarrow> rem a 1000 = a mod 1000"
  by (simp add: rem_def quot_nonneg minus_mult_div_eq_mod)

lemma quot_thousands: "quot (k * 1000) 1000 = k"
proof (cases "0 \<le> k")
  case True
  then show ?thesis by (simp add: quot_nonneg)
next
  case False
  then have "k < 0" by simp
  then have "sgn (k * 1000) = - 1" and "\<bar>k * 1000\<bar> = (- k) * 1000"
    by (simp_all add: sgn_if mult_less_0_iff)
  then show ?thesis by (simp add: quot_def)
qed

lemma rem_thousands: "rem (k * 1000) 1000 = 0"
  by (simp add: rem_def quot_thousands)

lemma time_UnixMilli_pos:
  assumes "0 < sint prev"
  shows "unix_sec (time_UnixMilli prev) = sint prev div 1000
       \<and> 0 \<le> nsec (time_UnixMilli prev)"
proof -
  have nn: "0 \<le> sint prev" using assms by simp
  define ns where "ns = sint prev mod 1000 * 1000000"
  have "0 \<le> sint prev mod 1000" and "sint prev mod 1000 < 1000" by simp_all
  then have lo: "\<not> ns < 0" and hi: "\<not> 1000000000 \<le> ns"
    unfolding ns_def by linarith+
  have "time_UnixMilli prev = Unix (sint prev div 1000) ns"
    by (simp add: time_UnixMilli_def quot_nonneg [OF nn] rem_nonneg [OF nn] ns_def)
  with lo hi show ?thesis
    by (simp add: Unix_def)
qed

lemma time_UnixMilli_thousands:
  assumes "sint nxt = k * 1000"
  shows "unix_sec (time_UnixMilli nxt) = k \<and> nsec (time_UnixMilli nxt) = 0"
  using assms by (simp add: time_UnixMilli_def quot_thousands rem_thousands Unix_def)

lemma sint_Time_UnixMilli:
  assumes "fits_int64_ms t"
  shows "sint (Time_UnixMilli t) = unix_sec t * 1000 + quot (nsec t) 1000000"
proof -
  define k where "k = unix_sec t * 1000 + quot (nsec t) 1000000"
  from assms have "- (2 ^ 63) \<le> k" and "k < 2 ^ 63"
    by (simp_all add: fits_int64_ms_def k_def)
  then have "signed_take_bit 63 k = k"
    by (rule signed_take_bit_int_eq_self)
  moreover have "sint (word_of_int k :: 64 word) = signed_take_bit 63 k"
    by (simp add: sint_sbintrunc')
  ultimately have "sint (word_of_int k :: 64 word) = k" by simp
  then show ?thesis
    unfolding Time_UnixMilli_def k_def .
qed

lemma next_fire_time_later:
  assumes later: "next_is_later (schedule ct)"
      and ok: "NextFireTime now ct prev = (nxt, None)"
      and fits: "fits_int64_ms (schedule ct (baseTime now ct prev))"
  shows "(0 < sint prev \<longrightarrow> sint prev < sint nxt)
       \<and> (sint prev \<le> 0 \<longrightarrow> After (time_UnixMilli nxt) now)"
proof -
  let ?b = "baseTime now ct prev"
  let ?r = "schedule ct ?b"
  from ok have nz: "\<not> IsZero ?r" and nxt: "nxt = Time_UnixMilli ?r"
    by (auto simp: NextFireTime_def Let_def split: if_splits)
  from later nz have af: "After ?r ?b" and whole: "nsec ?r = 0"
    by (auto simp: next_is_later_def)
  from sint_Time_UnixMilli [OF fits] nxt whole
  have s: "sint nxt = unix_sec ?r * 1000"
    by (simp add: quot_def)
  show ?thesis
  proof (intro conjI impI)
    assume pos: "0 < sint prev"
    then have b: "unix_sec ?b = sint prev div 1000" and n: "0 \<le> nsec ?b"
      using time_UnixMilli_pos [OF pos] by (simp_all add: baseTime_def In_def)
    from af whole n have "unix_sec ?b < unix_sec ?r"
      by (auto simp: After_def)
    with b have "sint prev div 1000 + 1 \<le> unix_sec ?r" by simp
    then have "(sint prev div 1000 + 1) * 1000 \<le> unix_sec ?r * 1000" by simp
    moreover have "sint prev < (sint prev div 1000 + 1) * 1000"
      by (simp add: algebra_simps)
    ultimately show "sint prev < sint nxt" using s by simp
  next
    assume np: "sint prev \<le> 0"
    then have b: "unix_sec ?b = unix_sec now" "nsec ?b = nsec now"
      by (simp_all add: baseTime_def In_def)
    from time_UnixMilli_thousands [OF s]
    have t: "unix_sec (time_UnixMilli nxt) = unix_sec ?r" "nsec (time_UnixMilli nxt) = 0"
      by simp_all
    from af whole b t show "After (time_UnixMilli nxt) now"
      by (auto simp: After_def)
  qed
qed

lemma fire_times_sorted:
  assumes later: "next_is_later (schedule ct)"
  shows "0 < sint prev \<Longrightarrow> all_fit now ct (prev # fire_times now ct prev n) \<Longrightarrow>
     sorted_wrt (\<lambda>a b. sint a < sint b) (prev # fire_times now ct prev n)"
proof (induction n arbitrary: prev)
  case 0
  then show ?case by simp
next
  case (Suc n)
  show ?case
  proof (cases "NextFireTime now ct prev")
    case (Pair nxt err)
    show ?thesis
    proof (cases err)
      case (Some e)
      with Pair show ?thesis by simp
    next
      case None
      with Pair have ok: "NextFireTime now ct prev = (nxt, None)" by simp
      then have ft: "fire_times now ct prev (Suc n) = nxt # fire_times now ct nxt n" by simp
      from Suc.prems(2) have f0: "fits_int64_ms (schedule ct (baseTime now ct prev))"
        by (simp add: all_fit_def)
      from next_fire_time_later [OF later ok f0] Suc.prems(1)
      have lt: "sint prev < sint nxt" by simp
      with Suc.prems(1) have pos: "0 < sint nxt" by simp
      have rest: "all_fit now ct (nxt # fire_times now ct nxt n)"
        using Suc.prems(2) unfolding ft by (simp add: all_fit_def)
      from Suc.IH [OF pos rest]
      have srt: "sorted_wrt (\<lambda>a b. sint a < sint b) (nxt # fire_times now ct nxt n)" .
      then have "\<forall>x \<in> set (fire_times now ct nxt n). sint nxt < sint x" by simp
      with lt have "\<forall>x \<in> set (nxt # fire_times now ct nxt n). sint prev < sint x"
        by auto
      with srt ft show ?thesis by simp
    qed
  qed
qed

subsection \<open>Days without a February 29\<close>

text \<open>The two directions of the calendar agree on the dates the examples use.\<close>

lemma calendar_examples:
  "days_from_civil 1970 1 1 = 0 \<and> month_of_day 0 = 1 \<and> day_of_month 0 = 1"
  "days_from_civil 2024 1 5 = 19727 \<and> month_of_day 19727 = 1 \<and> day_of_month 19727 = 5"
  "days_from_civil 2024 2 29 = 19782 \<and> month_of_day 19782 = 2 \<and> day_of_month 19782 = 29"
  "days_from_civil 2024 3 1 = 19783 \<and> month_of_day 19783 = 3 \<and> day_of_month 19783 = 1"
  "days_from_civil 2025 2 28 = 20147 \<and> month_of_day 20147 = 2 \<and> day_of_month 20147 = 28"
  "days_from_civil 2025 3 1 = 20148 \<and> month_of_day 20148 = 3 \<and> day_of_month 20148 = 1"
  "days_from_civil 2028 2 29 = 21243 \<and> month_of_day 21243 = 2 \<and> day_of_month 21243 = 29"
  by (simp_all add: days_from_civil_def month_of_day_def day_of_month_def doe_of_def
      doy_of_def yoe_of_def mp_of_def Let_def)







subsection \<open>The next occurrences of the examples\<close>
















lemma every_minute_later: "next_is_later every_minute"
proof -
  have "After (every_minute t) t" for t
  proof -
    have "unix_sec t mod 60 < 60" by simp
    then show ?thesis by (simp add: After_def every_minute_def)
  qed
  then show ?thesis by (simp add: next_is_later_def every_minute_def)
qed

lemma minutely_parser_later: "schedules_are_later minutely_parser"
  using every_minute_later
  by (auto simp: schedules_are_later_def minutely_parser_def split: if_splits)

lemma minutely_trigger_built:
  "NewCronTriggerWithLoc minutely_parser ''* * * * *'' (Some ''UTC'') = (Some minutely_trigger, None)"
  by (simp add: NewCronTriggerWithLoc_def minutely_parser_def minutely_trigger_def)

lemma minutely_values:
  "baseTime epoch minutely_trigger 1704456000000 = \<lparr>unix_sec = 1704456000, nsec = 0, loc = ''UTC''\<rparr>"
  "baseTime epoch minutely_trigger 1704456060000 = \<lparr>unix_sec = 1704456060, nsec = 0, loc = ''UTC''\<rparr>"
  "baseTime epoch minutely_trigger 1704456120000 = \<lparr>unix_sec = 1704456120, nsec = 0, loc = ''UTC''\<rparr>"
  "baseTime epoch minutely_trigger 0 = \<lparr>unix_sec = 0, nsec = 0, loc = ''UTC''\<rparr>"
  "baseTime epoch minutely_trigger max_int64
     = \<lparr>unix_sec = 9223372036854775, nsec = 807000000, loc = ''UTC''\<rparr>"
  by (simp_all add: baseTime_def In_def time_UnixMilli_def Unix_def quot_def rem_def
      minutely_trigger_def epoch_def max_int64_def)

text \<open>
  C1, as the code has it. For a trigger the constructor has built with a parser whose
  schedules keep the promise of \<open>Next\<close>, and a call of \<open>NextFireTime\<close> that returns no
  error and whose fire time fits the \<open>int64\<close> milliseconds: the result is greater than
  \<open>prev\<close> when \<open>prev > 0\<close>, and after the current time when \<open>prev \<le> 0\<close>. Starting from
  \<open>prev > 0\<close> and feeding each result back, the fire times increase strictly, as long as
  each fits.
\<close>

theorem fire_times_increase:
  assumes "schedules_are_later parse"
      and "NewCronTriggerWithLoc parse e l = (Some ct, None)"
  shows "(NextFireTime now ct prev = (nxt, None)
            \<and> fits_int64_ms (schedule ct (baseTime now ct prev))
          \<longrightarrow> (0 < sint prev \<longrightarrow> sint prev < sint nxt)
            \<and> (sint prev \<le> 0 \<longrightarrow> After (time_UnixMilli nxt) now))
       \<and> (0 < sint prev \<and> all_fit now ct (prev # fire_times now ct prev n)
          \<longrightarrow> sorted_wrt (\<lambda>a b. sint a < sint b) (prev # fire_times now ct prev n))"
proof -
  from assms(2) obtain lc sched where "parse e = Inr sched" and "schedule ct = sched"
    by (auto simp: NewCronTriggerWithLoc_def split: option.splits if_splits sum.splits)
  with assms(1) have later: "next_is_later (schedule ct)"
    by (simp add: schedules_are_later_def)
  from next_fire_time_later [OF later] fire_times_sorted [OF later]
  show ?thesis by blast
qed

theorem fire_times_increase_witness:
  "schedules_are_later minutely_parser
   \<and> NewCronTriggerWithLoc minutely_parser ''* * * * *'' (Some ''UTC'')
       = (Some minutely_trigger, None)
   \<and> NextFireTime epoch minutely_trigger 1704456000000 = (1704456060000, None)
   \<and> fits_int64_ms (schedule minutely_trigger (baseTime epoch minutely_trigger 1704456000000))
   \<and> sint (1704456000000 :: 64 word) < sint (1704456060000 :: 64 word)
   \<and> NextFireTime epoch minutely_trigger 0 = (60000, None)
   \<and> fits_int64_ms (schedule minutely_trigger (baseTime epoch minutely_trigger 0))
   \<and> After (time_UnixMilli 60000) epoch
   \<and> fire_times epoch minutely_trigger 1704456000000 2 = [1704456060000, 1704456120000]
   \<and> all_fit epoch minutely_trigger
         (1704456000000 # fire_times epoch minutely_trigger 1704456000000 2)
   \<and> sorted_wrt (\<lambda>a b. sint a < sint b)
        (1704456000000 # fire_times epoch minutely_trigger 1704456000000 2)"
proof -
  have n1: "NextFireTime epoch minutely_trigger 1704456000000 = (1704456060000, None)"
    by (simp add: NextFireTime_def minutely_values)
       (simp add: minutely_trigger_def every_minute_def IsZero_def Time_UnixMilli_def quot_def)
  have n2: "NextFireTime epoch minutely_trigger 1704456060000 = (1704456120000, None)"
    by (simp add: NextFireTime_def minutely_values)
       (simp add: minutely_trigger_def every_minute_def IsZero_def Time_UnixMilli_def quot_def)
  have n0: "NextFireTime epoch minutely_trigger 0 = (60000, None)"
    by (simp add: NextFireTime_def minutely_values)
       (simp add: minutely_trigger_def every_minute_def IsZero_def Time_UnixMilli_def quot_def)
  have ft: "fire_times epoch minutely_trigger 1704456000000 2 = [1704456060000, 1704456120000]"
    by (simp add: numeral_2_eq_2 n1 n2)
  have f: "fits_int64_ms (schedule minutely_trigger (baseTime epoch minutely_trigger 1704456000000))"
    "fits_int64_ms (schedule minutely_trigger (baseTime epoch minutely_trigger 1704456060000))"
    "fits_int64_ms (schedule minutely_trigger (baseTime epoch minutely_trigger 1704456120000))"
    "fits_int64_ms (schedule minutely_trigger (baseTime epoch minutely_trigger 0))"
    by (simp_all add: minutely_values)
       (simp_all add: minutely_trigger_def every_minute_def fits_int64_ms_def quot_def)
  have fa: "all_fit epoch minutely_trigger
         (1704456000000 # fire_times epoch minutely_trigger 1704456000000 2)"
    unfolding ft all_fit_def using f by simp
  have p: "0 < sint (1704456000000 :: 64 word)" "sint (0 :: 64 word) \<le> 0" by simp_all
  from fire_times_increase [OF minutely_parser_later minutely_trigger_built,
      of epoch "1704456000000" "1704456060000" 2]
    fire_times_increase [OF minutely_parser_later minutely_trigger_built,
      of epoch 0 60000 0]
    minutely_parser_later minutely_trigger_built n1 n0 ft f fa p
  show ?thesis by simp
qed

text \<open>
  C1, as the claim states it, fails for a \<open>prev\<close> at the end of the \<open>int64\<close> range: the
  next whole minute does not fit, \<open>UnixMilli\<close> wraps around, and \<open>NextFireTime\<close> returns a
  negative value and no error.
\<close>

theorem fire_time_wraps_around:
  "schedules_are_later minutely_parser
   \<and> NewCronTriggerWithLoc minutely_parser ''* * * * *'' (Some ''UTC'')
       = (Some minutely_trigger, None)
   \<and> sint max_int64 = 9223372036854775807
   \<and> NextFireTime epoch minutely_trigger max_int64 = (9223372036854780000, None)
   \<and> sint (9223372036854780000 :: 64 word) = - 9223372036854771616
   \<and> \<not> sint max_int64 < sint (fst (NextFireTime epoch minutely_trigger max_int64))"
proof -
  have n: "NextFireTime epoch minutely_trigger max_int64 = (9223372036854780000, None)"
    by (simp add: NextFireTime_def minutely_values)
       (simp add: minutely_trigger_def every_minute_def IsZero_def Time_UnixMilli_def quot_def)
  have s: "sint max_int64 = 9223372036854775807"
    "sint (9223372036854780000 :: 64 word) = - 9223372036854771616"
    by (simp_all add: max_int64_def)
  from minutely_parser_later minutely_trigger_built n s show ?thesis by simp
qed

end
